theory Spec2Isabelle
  imports Complex_Main "HOL-Library.Sublist"
begin

section \<open>Gateway MQTT publisher: the values the program handles\<close>

text \<open>
  The program of \<^verbatim>\<open>log-publisher/gateway-mqtt-publisher.py\<close> reads the log of a
  Basic Station container, asks The Things Network for the gateway's connection statistics,
  and publishes what it derives over MQTT. This theory embeds its functions
  \<^verbatim>\<open>get_docker_logs\<close>, \<^verbatim>\<open>parse_log_lines\<close>, \<^verbatim>\<open>get_gateway_stats\<close>,
  \<^verbatim>\<open>fetch_ttn_stats\<close>, \<^verbatim>\<open>parse_ttn_stats\<close> and the loop of \<^verbatim>\<open>publish_stats\<close>.

  A Python \<^verbatim>\<open>str\<close> is a \<^typ>\<open>string\<close>, read as the sequence of its code points; only
  code points below 256 occur in the model. Python's \<^verbatim>\<open>float\<close> values are the reals plus
  the three special values; the rounding of floating-point arithmetic is not modelled.
\<close>

datatype pyfloat = Finite real | PosInf | NegInf | NaN

text \<open>
  What \<^verbatim>\<open>requests.Response.json()\<close> can hand back: \<^verbatim>\<open>None\<close>, a bool, an int, a float,
  a str, a list or a dict with string keys. A dict is the list of its items; a key is
  looked up with \<^const>\<open>map_of\<close>.
\<close>

datatype pyval =
    PNone
  | PBool bool
  | PInt int
  | PFloat pyfloat
  | PStr string
  | PList "pyval list"
  | PDict "(string \<times> pyval) list"

text \<open>The exceptions the modelled code can meet; all are subclasses of \<^verbatim>\<open>Exception\<close>.\<close>

datatype pyerr = AttributeError | TypeError | ValueError | OverflowError

text \<open>
  The result of \<^verbatim>\<open>datetime.fromisoformat\<close>: a datetime without an offset (naive), or one
  with an offset (aware), which fixes an instant; the instant is kept as seconds since the
  epoch.
\<close>

datatype pydatetime = Naive | Aware real

text \<open>
  The two parsers of the Python library that the program calls are parameters of the model,
  since what they accept depends on the interpreter's version: \<^verbatim>\<open>int(s)\<close> on a str and
  \<^verbatim>\<open>datetime.fromisoformat(s)\<close>. Each gives \<^const>\<open>None\<close> where Python raises
  \<^verbatim>\<open>ValueError\<close>.
\<close>

record pylib =
  int_of_str :: "string \<Rightarrow> int option"
  fromisoformat :: "string \<Rightarrow> pydatetime option"

text \<open>Truth value testing, as \<^verbatim>\<open>if x:\<close> and \<^verbatim>\<open>not x\<close> do it.\<close>

fun truthy :: "pyval \<Rightarrow> bool" where
  "truthy PNone = False"
| "truthy (PBool b) = b"
| "truthy (PInt n) = (n \<noteq> 0)"
| "truthy (PFloat (Finite x)) = (x \<noteq> 0)"
| "truthy (PFloat _) = True"
| "truthy (PStr s) = (s \<noteq> [])"
| "truthy (PList xs) = (xs \<noteq> [])"
| "truthy (PDict kvs) = (kvs \<noteq> [])"

text \<open>\<^verbatim>\<open>data.get(key, default)\<close>: only a dict has the method.\<close>

fun py_get :: "pyval \<Rightarrow> string \<Rightarrow> pyval \<Rightarrow> pyerr + pyval" where
  "py_get (PDict kvs) k d = Inr (case map_of kvs k of None \<Rightarrow> d | Some v \<Rightarrow> v)"
| "py_get _ k d = Inl AttributeError"

text \<open>\<^verbatim>\<open>int(x)\<close>: a float is truncated towards zero.\<close>

fun py_int :: "pylib \<Rightarrow> pyval \<Rightarrow> pyerr + int" where
  "py_int lib PNone = Inl TypeError"
| "py_int lib (PBool b) = Inr (if b then 1 else 0)"
| "py_int lib (PInt n) = Inr n"
| "py_int lib (PFloat (Finite x)) = Inr (if 0 \<le> x then \<lfloor>x\<rfloor> else \<lceil>x\<rceil>)"
| "py_int lib (PFloat NaN) = Inl ValueError"
| "py_int lib (PFloat _) = Inl OverflowError"
| "py_int lib (PStr s) = (case int_of_str lib s of None \<Rightarrow> Inl ValueError | Some n \<Rightarrow> Inr n)"
| "py_int lib (PList xs) = Inl TypeError"
| "py_int lib (PDict kvs) = Inl TypeError"

text \<open>\<^verbatim>\<open>s.replace("Z", "+00:00")\<close>: every \<^verbatim>\<open>Z\<close> of the string is replaced.\<close>

definition replace_Z :: "string \<Rightarrow> string" where
  "replace_Z s = concat (map (\<lambda>c. if c = CHR ''Z'' then ''+00:00'' else [c]) s)"

section \<open>parse\_ttn\_stats\<close>

record ttn_stats =
  uplink_count :: int
  downlink_count :: int
  last_uplink_received_at :: pyval
  last_downlink_received_at :: pyval
  connected :: bool

definition default_max_age_seconds :: real where
  "default_max_age_seconds = 600"

text \<open>The record returned for falsy data.\<close>

definition zero_stats :: ttn_stats where
  "zero_stats =
     \<lparr>uplink_count = 0, downlink_count = 0,
      last_uplink_received_at = PStr [], last_downlink_received_at = PStr [],
      connected = False\<rparr>"

text \<open>
  The body of the \<^verbatim>\<open>try\<close>: \<^verbatim>\<open>replace\<close> exists on a str only; \<^verbatim>\<open>fromisoformat\<close>
  may raise; subtracting a naive datetime from the aware \<^verbatim>\<open>datetime.now(timezone.utc)\<close>
  raises \<^verbatim>\<open>TypeError\<close>. \<open>now_utc\<close> is the reading of the clock, in seconds since the epoch.
\<close>

definition age_check :: "pylib \<Rightarrow> real \<Rightarrow> pyval \<Rightarrow> real \<Rightarrow> int \<Rightarrow> pyerr + bool" where
  "age_check lib now_utc last_up max_age_seconds uplink =
     (case last_up of
        PStr s \<Rightarrow>
          (case fromisoformat lib (replace_Z s) of
             None \<Rightarrow> Inl ValueError
           | Some Naive \<Rightarrow> Inl TypeError
           | Some (Aware t_last) \<Rightarrow>
               (let age = now_utc - t_last
                in Inr (age \<le> max_age_seconds \<and> uplink > 0)))
      | _ \<Rightarrow> Inl AttributeError)"

definition parse_ttn_stats :: "pylib \<Rightarrow> real \<Rightarrow> pyval \<Rightarrow> real \<Rightarrow> pyerr + ttn_stats" where
  "parse_ttn_stats lib now_utc data max_age_seconds =
     (if \<not> truthy data then Inr zero_stats
      else
        (case py_get data ''uplink_count'' (PInt 0) of Inl e \<Rightarrow> Inl e | Inr v_up \<Rightarrow>
        (case py_int lib v_up of Inl e \<Rightarrow> Inl e | Inr uplink \<Rightarrow>
        (case py_get data ''downlink_count'' (PInt 0) of Inl e \<Rightarrow> Inl e | Inr v_down \<Rightarrow>
        (case py_int lib v_down of Inl e \<Rightarrow> Inl e | Inr downlink \<Rightarrow>
        (case py_get data ''last_uplink_received_at'' (PStr []) of Inl e \<Rightarrow> Inl e | Inr last_up \<Rightarrow>
        (case py_get data ''last_downlink_received_at'' (PStr []) of Inl e \<Rightarrow> Inl e | Inr last_down \<Rightarrow>
          (let connected =
                 (if truthy last_up
                  then (case age_check lib now_utc last_up max_age_seconds uplink of
                          Inl e \<Rightarrow> uplink > 0
                        | Inr c \<Rightarrow> c)
                  else False)
           in Inr \<lparr>uplink_count = uplink, downlink_count = downlink,
                   last_uplink_received_at = last_up, last_downlink_received_at = last_down,
                   connected = connected\<rparr>))))))))"

text \<open>
  A library for concrete runs. It answers as CPython does on the strings it lists and
  rejects every other string; the concrete runs below use it on the listed strings and on
  strings that CPython rejects too. The instant 2025-12-07T10:40:12 UTC is 1765104012
  seconds after the epoch.
\<close>

definition sample_lib :: pylib where
  "sample_lib =
     \<lparr>int_of_str = (\<lambda>s. if s = ''42'' then Some 42 else None),
      fromisoformat =
        (\<lambda>s. if s = ''2025-12-07T10:40:12+00:00'' then Some (Aware 1765104012)
             else if s = ''2025-12-07T10:40:12'' then Some Naive
             else None)\<rparr>"

section \<open>Console output and effects\<close>

text \<open>
  What the program prints, as structured messages; the wall-clock prefix of a report is
  left out.
\<close>

datatype console =
    DebugGotLines nat
  | ErrorDockerLogs string
  | DebugFoundRX string
  | DebugFoundTX string
  | DebugLocalStats nat nat bool
  | DebugTTNIncomplete
  | PrintUrl string
  | DebugTTNRaw pyval
  | ErrorFetchTTN string
  | PrintTTNConnected int int bool
  | PrintTTN int int
  | ErrorPublishLoop pyerr

text \<open>
  The effects of the program on the outside, in the order they happen: a line on the
  console, a request for the container's log (container name, \<^verbatim>\<open>tail\<close>), an HTTP GET (url,
  bearer token), an MQTT publish (topic, payload, retain flag) and a sleep (seconds).
\<close>

datatype effect =
    Console console
  | DockerLogs string int
  | HttpGet string string
  | MqttPublish string pyval bool
  | Sleep nat

text \<open>The module's configuration, read from the environment at start.\<close>

record config =
  DEBUG :: bool
  TOPIC_PREFIX :: string
  BASICSTATION_CONTAINER :: string
  TTN_CLUSTER :: string
  TTN_GATEWAY_ID :: string
  TTN_API_KEY :: string

section \<open>get\_docker\_logs\<close>

text \<open>
  The answer of the Docker API to \<^verbatim>\<open>containers.get(name).logs(tail=n)\<close>: either call may
  raise (the text of the exception is kept), or the log's bytes come back; they are kept as
  the text \<^verbatim>\<open>decode("utf-8", errors="ignore")\<close> makes of them, which cannot raise.
\<close>

datatype docker_reply = ContainerError string | LogsError string | LogsText string

text \<open>
  The line boundaries of \<^verbatim>\<open>str.splitlines\<close> among the code points below 256: line feed,
  vertical tab, form feed, carriage return, the file, group and record separators and the
  next-line control.
\<close>

definition is_linebreak :: "char \<Rightarrow> bool" where
  "is_linebreak c =
     (c = CHR 0x0A \<or> c = CHR 0x0B \<or> c = CHR 0x0C \<or> c = CHR 0x0D \<or>
      c = CHR 0x1C \<or> c = CHR 0x1D \<or> c = CHR 0x1E \<or> c = CHR 0x85)"

text \<open>
  \<^verbatim>\<open>str.splitlines()\<close>: the text is cut at each boundary, a carriage return followed by a
  line feed is one boundary, and no empty last line is produced. \<open>cur\<close> is the line read so
  far.
\<close>

fun splitlines_from :: "string \<Rightarrow> string \<Rightarrow> string list" where
  "splitlines_from cur [] = (if cur = [] then [] else [cur])"
| "splitlines_from cur [c] =
     (if is_linebreak c then [cur] else [cur @ [c]])"
| "splitlines_from cur (c # d # cs) =
     (if c = CHR 0x0D \<and> d = CHR 0x0A then cur # splitlines_from [] cs
      else if is_linebreak c then cur # splitlines_from [] (d # cs)
      else splitlines_from (cur @ [c]) (d # cs))"

definition py_splitlines :: "string \<Rightarrow> string list" where
  "py_splitlines raw = splitlines_from [] raw"

definition get_docker_logs ::
  "config \<Rightarrow> (string \<Rightarrow> int \<Rightarrow> docker_reply) \<Rightarrow> string \<Rightarrow> int \<Rightarrow> string list \<times> effect list" where
  "get_docker_logs cfg docker container_name tail_lines =
     (case docker container_name tail_lines of
        ContainerError e \<Rightarrow>
          ([], [DockerLogs container_name tail_lines, Console (ErrorDockerLogs e)])
      | LogsError e \<Rightarrow>
          ([], [DockerLogs container_name tail_lines, Console (ErrorDockerLogs e)])
      | LogsText raw \<Rightarrow>
          (let lines = py_splitlines raw
           in (lines,
               DockerLogs container_name tail_lines #
               (if DEBUG cfg then [Console (DebugGotLines (length lines))] else []))))"


section \<open>parse\_log\_lines and get\_gateway\_stats\<close>

text \<open>
  The white space that \<^verbatim>\<open>str.strip()\<close> removes, among the code points below 256.
\<close>

definition py_isspace :: "char \<Rightarrow> bool" where
  "py_isspace c =
     (let n = (of_char c :: nat)
      in (9 \<le> n \<and> n \<le> 13) \<or> (28 \<le> n \<and> n \<le> 32) \<or> n = 133 \<or> n = 160)"

definition py_strip :: "string \<Rightarrow> string" where
  "py_strip s = rev (dropWhile py_isspace (rev (dropWhile py_isspace s)))"

text \<open>
  The two tests on a line; \<^verbatim>\<open>x in line\<close> on strings is the test for a contiguous
  substring, \<^const>\<open>sublist\<close>.
\<close>

definition rx_line :: "string \<Rightarrow> bool" where
  "rx_line line = (sublist ''[S2E:'' line \<and> sublist '' RX '' line)"

definition tx_line :: "string \<Rightarrow> bool" where
  "tx_line line = (sublist ''[S2E:'' line \<and> sublist '' TX '' line)"

record log_counts =
  rx :: nat
  tx :: nat

text \<open>The loop over the lines, with the two counters and the console lines so far.\<close>

fun parse_loop :: "config \<Rightarrow> string list \<Rightarrow> nat \<Rightarrow> nat \<Rightarrow> effect list \<Rightarrow> nat \<times> nat \<times> effect list" where
  "parse_loop cfg [] rx_count tx_count out = (rx_count, tx_count, out)"
| "parse_loop cfg (line # lines) rx_count tx_count out =
     (if py_strip line = [] then parse_loop cfg lines rx_count tx_count out
      else
        (let (rx_count1, out1) =
               (if rx_line line
                then (rx_count + 1,
                      if DEBUG cfg then out @ [Console (DebugFoundRX (take 120 line))] else out)
                else (rx_count, out));
             (tx_count1, out2) =
               (if tx_line line
                then (tx_count + 1,
                      if DEBUG cfg then out1 @ [Console (DebugFoundTX (take 120 line))] else out1)
                else (tx_count, out1))
         in parse_loop cfg lines rx_count1 tx_count1 out2))"

definition parse_log_lines :: "config \<Rightarrow> string list \<Rightarrow> log_counts \<times> effect list" where
  "parse_log_lines cfg lines =
     (case parse_loop cfg lines 0 0 [] of
        (rx_count, tx_count, out) \<Rightarrow> (\<lparr>rx = rx_count, tx = tx_count\<rparr>, out))"

record local_stats =
  rx_total :: nat
  tx_total :: nat
  connected :: bool
  timestamp :: string

text \<open>
  \<^verbatim>\<open>lines[-50:]\<close> is the last 50 lines, or all of them when there are fewer. Neither
  \<^const>\<open>get_docker_logs\<close> nor \<^const>\<open>parse_log_lines\<close> can raise on a list of strings, so
  the \<^verbatim>\<open>except\<close> branch of the source is never taken. \<open>stamp\<close> is what
  \<^verbatim>\<open>datetime.now().isoformat()\<close> returns.
\<close>

definition get_gateway_stats ::
  "config \<Rightarrow> (string \<Rightarrow> int \<Rightarrow> docker_reply) \<Rightarrow> string \<Rightarrow> string \<Rightarrow> local_stats \<times> effect list" where
  "get_gateway_stats cfg docker stamp container_name =
     (case get_docker_logs cfg docker container_name 100 of (lines, out1) \<Rightarrow>
      (case parse_log_lines cfg lines of (stats, out2) \<Rightarrow>
        (let recent_lines = (if lines \<noteq> [] then drop (length lines - 50) lines else []);
             has_rx_recent = list_ex rx_line recent_lines;
             connected = has_rx_recent
         in (\<lparr>rx_total = rx stats, tx_total = tx stats,
              connected = connected, timestamp = stamp\<rparr>,
             out1 @ out2 @
             (if DEBUG cfg
              then [Console (DebugLocalStats (rx stats) (tx stats) connected)]
              else [])))))"

text \<open>
  A log for concrete runs: 60 lines, each ended by a line feed; the first five are uplink
  lines, the other 55 are not.
\<close>

definition sample_lines :: "string list" where
  "sample_lines = replicate 5 ''[S2E:VERB] RX 868.1MHz'' @ replicate 55 ''idle''"

definition sample_log :: string where
  "sample_log = concat (map (\<lambda>l. l @ [CHR 0x0A]) sample_lines)"

section \<open>fetch\_ttn\_stats\<close>

text \<open>
  The answer to the HTTP GET: \<^verbatim>\<open>requests.get\<close>, \<^verbatim>\<open>raise_for_status\<close> or \<^verbatim>\<open>r.json()\<close>
  raises (the text of the exception is kept), or a JSON document comes back.
\<close>

datatype http_reply = HttpError string | HttpJson pyval

definition ttn_url :: "config \<Rightarrow> string" where
  "ttn_url cfg =
     ''https://'' @ TTN_CLUSTER cfg @ ''.cloud.thethings.network/api/v3/gs/gateways/'' @
     TTN_GATEWAY_ID cfg @ ''/connection/stats''"

definition fetch_ttn_stats ::
  "config \<Rightarrow> (string \<Rightarrow> string \<Rightarrow> http_reply) \<Rightarrow> pyval \<times> effect list" where
  "fetch_ttn_stats cfg http =
     (if \<not> (TTN_CLUSTER cfg \<noteq> [] \<and> TTN_GATEWAY_ID cfg \<noteq> [] \<and> TTN_API_KEY cfg \<noteq> [])
      then (PNone, if DEBUG cfg then [Console DebugTTNIncomplete] else [])
      else
        (let url = ttn_url cfg
         in (case http url (TTN_API_KEY cfg) of
               HttpJson data \<Rightarrow>
                 (data,
                  [Console (PrintUrl url), HttpGet url (TTN_API_KEY cfg)] @
                  (if DEBUG cfg then [Console (DebugTTNRaw data)] else []))
             | HttpError e \<Rightarrow>
                 (PNone,
                  [Console (PrintUrl url), HttpGet url (TTN_API_KEY cfg),
                   Console (ErrorFetchTTN e)]))))"

section \<open>The loop of publish\_stats\<close>

text \<open>
  The MQTT client is a parameter: \<open>mqtt_publish topic payload\<close> is \<^const>\<open>None\<close> when
  \<^verbatim>\<open>client.publish\<close> accepts the message and the exception when it raises. Every message
  of the program is retained. The messages of a block are published in order, up to the
  first one that raises.
\<close>

fun publish_all ::
  "(string \<Rightarrow> pyval \<Rightarrow> pyerr option) \<Rightarrow> (string \<times> pyval) list \<Rightarrow> effect list \<times> pyerr option" where
  "publish_all mqtt_publish [] = ([], None)"
| "publish_all mqtt_publish ((topic, payload) # msgs) =
     (case mqtt_publish topic payload of
        Some e \<Rightarrow> ([], Some e)
      | None \<Rightarrow>
          (case publish_all mqtt_publish msgs of
             (out, res) \<Rightarrow> (MqttPublish topic payload True # out, res)))"

text \<open>
  What one TTN block reads from the outside when it runs: the HTTP answer, the clock of
  \<^verbatim>\<open>datetime.now(timezone.utc)\<close> in seconds since the epoch, and the text of
  \<^verbatim>\<open>datetime.now().isoformat()\<close>. One iteration reads \<^verbatim>\<open>time.time()\<close> once and holds two
  TTN blocks.
\<close>

record chain_world =
  http_get :: "string \<Rightarrow> string \<Rightarrow> http_reply"
  utc_clock :: real
  iso_clock :: string

record tick =
  time_time :: real
  first_chain :: chain_world
  second_chain :: chain_world

text \<open>
  The loop's variables. The source assigns \<^verbatim>\<open>local_interval = 5\<close> and
  \<^verbatim>\<open>last_local = 0.0\<close> before the loop and never reads either; the loop body holds no
  call of \<^verbatim>\<open>get_gateway_stats\<close>.
\<close>

record sched =
  last_local :: real
  last_ttn :: real

definition local_interval :: real where
  "local_interval = 5"

definition ttn_interval :: real where
  "ttn_interval = 10"

definition initial_sched :: sched where
  "initial_sched = \<lparr>last_local = 0, last_ttn = 0\<rparr>"

text \<open>
  The first TTN block (source lines 235 to 267). A block that raises leaves
  \<^verbatim>\<open>last_ttn\<close> as it was.
\<close>

definition remote_block_first ::
  "config \<Rightarrow> pylib \<Rightarrow> (string \<Rightarrow> pyval \<Rightarrow> pyerr option) \<Rightarrow> real \<Rightarrow> chain_world \<Rightarrow> real \<Rightarrow> sched
     \<Rightarrow> effect list \<times> (pyerr + sched)" where
  "remote_block_first cfg lib mqtt_publish interval w now st =
     (if now - last_ttn st \<ge> interval
      then
        (case fetch_ttn_stats cfg (http_get w) of (ttn_raw, out1) \<Rightarrow>
        (case parse_ttn_stats lib (utc_clock w) ttn_raw default_max_age_seconds of
           Inl e \<Rightarrow> (out1, Inl e)
         | Inr ttn \<Rightarrow>
            (case publish_all mqtt_publish
                    [(TOPIC_PREFIX cfg @ ''/ttn/uplink_count'', PInt (uplink_count ttn)),
                     (TOPIC_PREFIX cfg @ ''/ttn/downlink_count'', PInt (downlink_count ttn)),
                     (TOPIC_PREFIX cfg @ ''/ttn/last_uplink_received_at'',
                        last_uplink_received_at ttn),
                     (TOPIC_PREFIX cfg @ ''/ttn/last_downlink_received_at'',
                        last_downlink_received_at ttn),
                     (TOPIC_PREFIX cfg @ ''/ttn/connected'',
                        PStr (if ttn_stats.connected ttn then ''1'' else ''0'')),
                     (TOPIC_PREFIX cfg @ ''/ttn/last_update'', PStr (iso_clock w))] of
               (out2, Some e) \<Rightarrow> (out1 @ out2, Inl e)
             | (out2, None) \<Rightarrow>
                 (out1 @ out2 @
                  [Console (PrintTTNConnected (uplink_count ttn) (downlink_count ttn)
                              (ttn_stats.connected ttn))],
                  Inr (st\<lparr>last_ttn := now\<rparr>)))))
      else ([], Inr st))"

text \<open>
  The second TTN block (source lines 269 to 304): the same guard on \<^verbatim>\<open>last_ttn\<close>, the
  same fetch and parse, five messages (none on \<^verbatim>\<open>ttn/connected\<close>).
\<close>

definition remote_block_second ::
  "config \<Rightarrow> pylib \<Rightarrow> (string \<Rightarrow> pyval \<Rightarrow> pyerr option) \<Rightarrow> real \<Rightarrow> chain_world \<Rightarrow> real \<Rightarrow> sched
     \<Rightarrow> effect list \<times> (pyerr + sched)" where
  "remote_block_second cfg lib mqtt_publish interval w now st =
     (if now - last_ttn st \<ge> interval
      then
        (case fetch_ttn_stats cfg (http_get w) of (ttn_raw, out1) \<Rightarrow>
        (case parse_ttn_stats lib (utc_clock w) ttn_raw default_max_age_seconds of
           Inl e \<Rightarrow> (out1, Inl e)
         | Inr ttn \<Rightarrow>
            (case publish_all mqtt_publish
                    [(TOPIC_PREFIX cfg @ ''/ttn/uplink_count'', PInt (uplink_count ttn)),
                     (TOPIC_PREFIX cfg @ ''/ttn/downlink_count'', PInt (downlink_count ttn)),
                     (TOPIC_PREFIX cfg @ ''/ttn/last_uplink_received_at'',
                        last_uplink_received_at ttn),
                     (TOPIC_PREFIX cfg @ ''/ttn/last_downlink_received_at'',
                        last_downlink_received_at ttn),
                     (TOPIC_PREFIX cfg @ ''/ttn/last_update'', PStr (iso_clock w))] of
               (out2, Some e) \<Rightarrow> (out1 @ out2, Inl e)
             | (out2, None) \<Rightarrow>
                 (out1 @ out2 @
                  [Console (PrintTTN (uplink_count ttn) (downlink_count ttn))],
                  Inr (st\<lparr>last_ttn := now\<rparr>)))))
      else ([], Inr st))"

text \<open>
  One pass through the body of \<^verbatim>\<open>while True\<close>: the clock is read once, the two blocks
  run in turn, then the loop sleeps one second. An exception in a block ends the pass at
  the \<^verbatim>\<open>except Exception\<close> clause, which reports it and sleeps five seconds.
\<close>

definition loop_iteration ::
  "config \<Rightarrow> pylib \<Rightarrow> (string \<Rightarrow> pyval \<Rightarrow> pyerr option) \<Rightarrow> real \<Rightarrow> tick \<Rightarrow> sched
     \<Rightarrow> effect list \<times> sched" where
  "loop_iteration cfg lib mqtt_publish interval w st =
     (let now = time_time w
      in (case remote_block_first cfg lib mqtt_publish interval (first_chain w) now st of
            (out1, Inl e) \<Rightarrow> (out1 @ [Console (ErrorPublishLoop e), Sleep 5], st)
          | (out1, Inr st1) \<Rightarrow>
              (case remote_block_second cfg lib mqtt_publish interval (second_chain w) now st1 of
                 (out2, Inl e) \<Rightarrow> (out1 @ out2 @ [Console (ErrorPublishLoop e), Sleep 5], st1)
               | (out2, Inr st2) \<Rightarrow> (out1 @ out2 @ [Sleep 1], st2))))"

text \<open>
  The loop runs until it is interrupted; its first passes are run here, one for each
  element of the list, and the effects of each pass are kept apart.
\<close>

fun loop_passes ::
  "config \<Rightarrow> pylib \<Rightarrow> (string \<Rightarrow> pyval \<Rightarrow> pyerr option) \<Rightarrow> real \<Rightarrow> tick list \<Rightarrow> sched
     \<Rightarrow> effect list list \<times> sched" where
  "loop_passes cfg lib mqtt_publish interval [] st = ([], st)"
| "loop_passes cfg lib mqtt_publish interval (w # ws) st =
     (case loop_iteration cfg lib mqtt_publish interval w st of
        (out, st1) \<Rightarrow>
          (case loop_passes cfg lib mqtt_publish interval ws st1 of
             (outs, st2) \<Rightarrow> (out # outs, st2)))"

definition publish_stats_loop ::
  "config \<Rightarrow> pylib \<Rightarrow> (string \<Rightarrow> pyval \<Rightarrow> pyerr option) \<Rightarrow> tick list \<Rightarrow> effect list list \<times> sched" where
  "publish_stats_loop cfg lib mqtt_publish ws =
     loop_passes cfg lib mqtt_publish ttn_interval ws initial_sched"

text \<open>
  A world for concrete runs: the configuration is the module's defaults (no gateway id and
  no API key, so \<^const>\<open>fetch_ttn_stats\<close> returns \<^verbatim>\<open>None\<close> without a request), the
  broker accepts every message, and the clock of \<^verbatim>\<open>time.time()\<close> shows the tick's number.
\<close>

definition default_config :: config where
  "default_config =
     \<lparr>DEBUG = False, TOPIC_PREFIX = ''gateways'', BASICSTATION_CONTAINER = ''basicstation'',
      TTN_CLUSTER = ''eu1'', TTN_GATEWAY_ID = [], TTN_API_KEY = []\<rparr>"

definition quiet_chain :: chain_world where
  "quiet_chain =
     \<lparr>http_get = (\<lambda>url key. HttpError ''unreachable''), utc_clock = 1765104012,
      iso_clock = ''2025-12-07T10:40:12''\<rparr>"

definition tick_at :: "real \<Rightarrow> tick" where
  "tick_at t = \<lparr>time_time = t, first_chain = quiet_chain, second_chain = quiet_chain\<rparr>"

definition accept_all :: "string \<Rightarrow> pyval \<Rightarrow> pyerr option" where
  "accept_all topic payload = None"

text \<open>Which effects belong to which chain.\<close>

fun is_docker_logs :: "effect \<Rightarrow> bool" where
  "is_docker_logs (DockerLogs container_name tail_lines) = True"
| "is_docker_logs _ = False"

fun is_http_get :: "effect \<Rightarrow> bool" where
  "is_http_get (HttpGet url key) = True"
| "is_http_get _ = False"

fun is_other_publish :: "config \<Rightarrow> effect \<Rightarrow> bool" where
  "is_other_publish cfg (MqttPublish topic payload retain) =
     (\<not> prefix (TOPIC_PREFIX cfg @ ''/ttn/'') topic)"
| "is_other_publish cfg _ = False"

section \<open>Properties of parse\_ttn\_stats\<close>

lemma age_check_Inr: "age_check lib now_utc last_up m u = Inr c \<Longrightarrow> c \<Longrightarrow> 0 < u"
  by (auto simp: age_check_def Let_def split: pyval.splits option.splits pydatetime.splits)

text \<open>
  On a dict whose two count fields convert, \<^const>\<open>parse_ttn_stats\<close> returns; an empty
  dict takes the falsy branch, which gives the same record as the defaults do.
\<close>

lemma parse_ttn_stats_dict:
  assumes "py_int lib (case map_of kvs ''uplink_count'' of None \<Rightarrow> PInt 0 | Some v \<Rightarrow> v) = Inr u"
    and "py_int lib (case map_of kvs ''downlink_count'' of None \<Rightarrow> PInt 0 | Some v \<Rightarrow> v) = Inr d"
  shows "parse_ttn_stats lib now_utc (PDict kvs) m =
     Inr \<lparr>uplink_count = u, downlink_count = d,
          last_uplink_received_at =
            (case map_of kvs ''last_uplink_received_at'' of None \<Rightarrow> PStr [] | Some v \<Rightarrow> v),
          last_downlink_received_at =
            (case map_of kvs ''last_downlink_received_at'' of None \<Rightarrow> PStr [] | Some v \<Rightarrow> v),
          connected =
            (let last_up =
                   (case map_of kvs ''last_uplink_received_at'' of None \<Rightarrow> PStr [] | Some v \<Rightarrow> v)
             in if truthy last_up
                then (case age_check lib now_utc last_up m u of Inl e \<Rightarrow> u > 0 | Inr c \<Rightarrow> c)
                else False)\<rparr>"
proof (cases "kvs = []")
  case True
  with assms show ?thesis by (simp add: parse_ttn_stats_def zero_stats_def)
next
  case False
  with assms show ?thesis by (simp add: parse_ttn_stats_def Let_def)
qed

lemma parse_ttn_stats_returns:
  assumes "parse_ttn_stats lib now_utc data m = Inr r" and "truthy data"
  shows "\<exists>kvs. data = PDict kvs \<and>
           py_int lib (case map_of kvs ''uplink_count'' of None \<Rightarrow> PInt 0 | Some v \<Rightarrow> v) =
             Inr (uplink_count r) \<and>
           py_int lib (case map_of kvs ''downlink_count'' of None \<Rightarrow> PInt 0 | Some v \<Rightarrow> v) =
             Inr (downlink_count r)"
proof (cases data)
  case (PDict kvs)
  with assms show ?thesis
    by (auto simp: parse_ttn_stats_def Let_def split: sum.splits)
qed (use assms in \<open>auto simp: parse_ttn_stats_def split: if_splits\<close>)

lemma replace_Z_sample: "replace_Z ''2025-12-07T10:40:12Z'' = ''2025-12-07T10:40:12+00:00''"
  by (simp add: replace_Z_def)

lemma replace_Z_not_a_date: "replace_Z ''not-a-date'' = ''not-a-date''"
  by (simp add: replace_Z_def)

text \<open>
  Claim C7. For every value of \<open>max_age_seconds\<close> (and every clock reading and library),
  \<^const>\<open>parse_ttn_stats\<close> applied to the absent input \<^verbatim>\<open>None\<close> returns exactly the fixed
  zero record: both counts 0, both timestamps the empty string, connected false. The result
  does not depend on \<open>max_age_seconds\<close>.
\<close>

theorem parse_ttn_stats_absent:
  "parse_ttn_stats lib now_utc PNone max_age_seconds =
     Inr \<lparr>uplink_count = 0, downlink_count = 0,
          last_uplink_received_at = PStr [], last_downlink_received_at = PStr [],
          connected = False\<rparr>"
  by (simp add: parse_ttn_stats_def zero_stats_def)

text \<open>
  Claim C2, as stated, fails: a count field that is present and does not convert makes
  \<^verbatim>\<open>int(...)\<close> raise, and a non-empty document that is no dict has no \<^verbatim>\<open>get\<close>;
  nothing in \<^verbatim>\<open>parse_ttn_stats\<close> catches either, so the exception reaches the caller.
  Three documents: \<^verbatim>\<open>{"uplink_count": null}\<close>, \<^verbatim>\<open>{"uplink_count": "abc"}\<close> and
  \<^verbatim>\<open>[1]\<close>.
\<close>

theorem parse_ttn_stats_raises:
  "parse_ttn_stats sample_lib 1765104012 (PDict [(''uplink_count'', PNone)]) 600 =
     Inl TypeError \<and>
   parse_ttn_stats sample_lib 1765104012 (PDict [(''uplink_count'', PStr ''abc'')]) 600 =
     Inl ValueError \<and>
   parse_ttn_stats sample_lib 1765104012 (PList [PInt 1]) 600 = Inl AttributeError"
  by (simp add: parse_ttn_stats_def sample_lib_def)

text \<open>
  A record that is returned need not be one the rest of the program can use: the two
  timestamp fields are copied from the document whatever they are, and a negative count
  is kept. Two documents: \<^verbatim>\<open>{"uplink_count": 2, "last_uplink_received_at": [1]}\<close> and
  \<^verbatim>\<open>{"uplink_count": -5}\<close>.
\<close>

lemma parse_ttn_stats_keeps_fields:
  "parse_ttn_stats sample_lib 1765104012
     (PDict [(''uplink_count'', PInt 2), (''last_uplink_received_at'', PList [PInt 1])]) 600 =
     Inr \<lparr>uplink_count = 2, downlink_count = 0,
          last_uplink_received_at = PList [PInt 1],
          last_downlink_received_at = PStr [], connected = True\<rparr> \<and>
   parse_ttn_stats sample_lib 1765104012 (PDict [(''uplink_count'', PInt (- 5))]) 600 =
     Inr \<lparr>uplink_count = - 5, downlink_count = 0,
          last_uplink_received_at = PStr [],
          last_downlink_received_at = PStr [], connected = False\<rparr>"
  by (simp add: parse_ttn_stats_def age_check_def)

text \<open>
  Claim C2, amended. \<^const>\<open>parse_ttn_stats\<close> returns a record, and raises nothing,
  exactly when the document is falsy or is a dict whose \<^verbatim>\<open>uplink_count\<close> and
  \<^verbatim>\<open>downlink_count\<close> are each missing or a value that \<^verbatim>\<open>int\<close> converts; on every
  other document it raises to its caller. A falsy document gives the zero record. A dict
  gives the record whose counts are the converted integers, 0 for a missing field, and
  whose two timestamp fields are the document's own values, copied as they are (the empty
  string for a missing field). Nothing more is said of the record: the counts may be
  negative and the timestamp fields may hold any JSON value.
\<close>

theorem parse_ttn_stats_counts:
  "((\<exists>r. parse_ttn_stats lib now_utc data max_age_seconds = Inr r) \<longleftrightarrow>
      (\<not> truthy data \<or>
       (\<exists>kvs u d. data = PDict kvs \<and>
          py_int lib (case map_of kvs ''uplink_count'' of None \<Rightarrow> PInt 0 | Some v \<Rightarrow> v) = Inr u \<and>
          py_int lib (case map_of kvs ''downlink_count'' of None \<Rightarrow> PInt 0 | Some v \<Rightarrow> v) = Inr d))) \<and>
   (\<forall>r. parse_ttn_stats lib now_utc data max_age_seconds = Inr r \<longrightarrow>
      (\<not> truthy data \<longrightarrow> uplink_count r = 0 \<and> downlink_count r = 0) \<and>
      (\<forall>kvs. data = PDict kvs \<longrightarrow>
         py_int lib (case map_of kvs ''uplink_count'' of None \<Rightarrow> PInt 0 | Some v \<Rightarrow> v) =
           Inr (uplink_count r) \<and>
         py_int lib (case map_of kvs ''downlink_count'' of None \<Rightarrow> PInt 0 | Some v \<Rightarrow> v) =
           Inr (downlink_count r) \<and>
         (map_of kvs ''uplink_count'' = None \<longrightarrow> uplink_count r = 0) \<and>
         (map_of kvs ''downlink_count'' = None \<longrightarrow> downlink_count r = 0))) \<and>
   ((\<exists>e. parse_ttn_stats lib now_utc data max_age_seconds = Inl e) \<longleftrightarrow>
      (truthy data \<and>
       \<not> (\<exists>kvs u d. data = PDict kvs \<and>
          py_int lib (case map_of kvs ''uplink_count'' of None \<Rightarrow> PInt 0 | Some v \<Rightarrow> v) = Inr u \<and>
          py_int lib (case map_of kvs ''downlink_count'' of None \<Rightarrow> PInt 0 | Some v \<Rightarrow> v) = Inr d))) \<and>
   (\<not> truthy data \<longrightarrow> parse_ttn_stats lib now_utc data max_age_seconds = Inr zero_stats) \<and>
   (\<forall>r kvs. parse_ttn_stats lib now_utc data max_age_seconds = Inr r \<and> data = PDict kvs \<longrightarrow>
      last_uplink_received_at r =
        (case map_of kvs ''last_uplink_received_at'' of None \<Rightarrow> PStr [] | Some v \<Rightarrow> v) \<and>
      last_downlink_received_at r =
        (case map_of kvs ''last_downlink_received_at'' of None \<Rightarrow> PStr [] | Some v \<Rightarrow> v))"
proof -
  let ?conv = "\<exists>kvs u d. data = PDict kvs \<and>
          py_int lib (case map_of kvs ''uplink_count'' of None \<Rightarrow> PInt 0 | Some v \<Rightarrow> v) = Inr u \<and>
          py_int lib (case map_of kvs ''downlink_count'' of None \<Rightarrow> PInt 0 | Some v \<Rightarrow> v) = Inr d"
  have ret: "(\<exists>r. parse_ttn_stats lib now_utc data max_age_seconds = Inr r) \<longleftrightarrow>
      (\<not> truthy data \<or> ?conv)"
    (is "?L \<longleftrightarrow> ?R")
  proof
    assume ?L
    then obtain r where r: "parse_ttn_stats lib now_utc data max_age_seconds = Inr r" ..
    show ?R
    proof (cases "truthy data")
      case True
      from parse_ttn_stats_returns [OF r True] show ?thesis by blast
    qed simp
  next
    assume ?R
    then show ?L
    proof
      assume "\<not> truthy data"
      then show ?L by (simp add: parse_ttn_stats_def)
    next
      assume ?conv
      then show ?L using parse_ttn_stats_dict by blast
    qed
  qed
  have vals: "\<forall>r. parse_ttn_stats lib now_utc data max_age_seconds = Inr r \<longrightarrow>
      (\<not> truthy data \<longrightarrow> uplink_count r = 0 \<and> downlink_count r = 0) \<and>
      (\<forall>kvs. data = PDict kvs \<longrightarrow>
         py_int lib (case map_of kvs ''uplink_count'' of None \<Rightarrow> PInt 0 | Some v \<Rightarrow> v) =
           Inr (uplink_count r) \<and>
         py_int lib (case map_of kvs ''downlink_count'' of None \<Rightarrow> PInt 0 | Some v \<Rightarrow> v) =
           Inr (downlink_count r) \<and>
         (map_of kvs ''uplink_count'' = None \<longrightarrow> uplink_count r = 0) \<and>
         (map_of kvs ''downlink_count'' = None \<longrightarrow> downlink_count r = 0))"
  proof (intro allI impI)
    fix r
    assume r: "parse_ttn_stats lib now_utc data max_age_seconds = Inr r"
    have falsy: "\<not> truthy data \<longrightarrow> uplink_count r = 0 \<and> downlink_count r = 0"
      using r by (auto simp: parse_ttn_stats_def zero_stats_def)
    have dict: "\<forall>kvs. data = PDict kvs \<longrightarrow>
         py_int lib (case map_of kvs ''uplink_count'' of None \<Rightarrow> PInt 0 | Some v \<Rightarrow> v) =
           Inr (uplink_count r) \<and>
         py_int lib (case map_of kvs ''downlink_count'' of None \<Rightarrow> PInt 0 | Some v \<Rightarrow> v) =
           Inr (downlink_count r) \<and>
         (map_of kvs ''uplink_count'' = None \<longrightarrow> uplink_count r = 0) \<and>
         (map_of kvs ''downlink_count'' = None \<longrightarrow> downlink_count r = 0)"
    proof (intro allI impI)
      fix kvs
      assume d: "data = PDict kvs"
      show "py_int lib (case map_of kvs ''uplink_count'' of None \<Rightarrow> PInt 0 | Some v \<Rightarrow> v) =
           Inr (uplink_count r) \<and>
         py_int lib (case map_of kvs ''downlink_count'' of None \<Rightarrow> PInt 0 | Some v \<Rightarrow> v) =
           Inr (downlink_count r) \<and>
         (map_of kvs ''uplink_count'' = None \<longrightarrow> uplink_count r = 0) \<and>
         (map_of kvs ''downlink_count'' = None \<longrightarrow> downlink_count r = 0)"
      proof (cases "kvs = []")
        case True
        with r d show ?thesis by (auto simp: parse_ttn_stats_def zero_stats_def)
      next
        case False
        with d have t: "truthy data" by simp
        from parse_ttn_stats_returns [OF r t] d
        have a: "py_int lib (case map_of kvs ''uplink_count'' of None \<Rightarrow> PInt 0 | Some v \<Rightarrow> v) =
             Inr (uplink_count r)"
          and b: "py_int lib (case map_of kvs ''downlink_count'' of None \<Rightarrow> PInt 0 | Some v \<Rightarrow> v) =
             Inr (downlink_count r)"
          by auto
        from a have "map_of kvs ''uplink_count'' = None \<longrightarrow> uplink_count r = 0" by auto
        moreover from b have "map_of kvs ''downlink_count'' = None \<longrightarrow> downlink_count r = 0"
          by auto
        ultimately show ?thesis using a b by blast
      qed
    qed
    from falsy dict show "(\<not> truthy data \<longrightarrow> uplink_count r = 0 \<and> downlink_count r = 0) \<and>
      (\<forall>kvs. data = PDict kvs \<longrightarrow>
         py_int lib (case map_of kvs ''uplink_count'' of None \<Rightarrow> PInt 0 | Some v \<Rightarrow> v) =
           Inr (uplink_count r) \<and>
         py_int lib (case map_of kvs ''downlink_count'' of None \<Rightarrow> PInt 0 | Some v \<Rightarrow> v) =
           Inr (downlink_count r) \<and>
         (map_of kvs ''uplink_count'' = None \<longrightarrow> uplink_count r = 0) \<and>
         (map_of kvs ''downlink_count'' = None \<longrightarrow> downlink_count r = 0))"
      by blast
  qed
  have raises: "(\<exists>e. parse_ttn_stats lib now_utc data max_age_seconds = Inl e) \<longleftrightarrow>
      (truthy data \<and> \<not> ?conv)"
  proof -
    have "(\<exists>e. parse_ttn_stats lib now_utc data max_age_seconds = Inl e) \<longleftrightarrow>
          \<not> (\<exists>r. parse_ttn_stats lib now_utc data max_age_seconds = Inr r)"
      by (cases "parse_ttn_stats lib now_utc data max_age_seconds") simp_all
    with ret show ?thesis by blast
  qed
  have zero: "\<not> truthy data \<longrightarrow>
      parse_ttn_stats lib now_utc data max_age_seconds = Inr zero_stats"
    by (simp add: parse_ttn_stats_def)
  have stamps: "\<forall>r kvs. parse_ttn_stats lib now_utc data max_age_seconds = Inr r \<and> data = PDict kvs \<longrightarrow>
      last_uplink_received_at r =
        (case map_of kvs ''last_uplink_received_at'' of None \<Rightarrow> PStr [] | Some v \<Rightarrow> v) \<and>
      last_downlink_received_at r =
        (case map_of kvs ''last_downlink_received_at'' of None \<Rightarrow> PStr [] | Some v \<Rightarrow> v)"
    by (auto simp: parse_ttn_stats_def zero_stats_def Let_def split: if_splits sum.splits)
  from ret vals raises zero stamps show ?thesis by blast
qed

text \<open>
  Two runs of the amended claim. \<^verbatim>\<open>{"uplink_count": "42"}\<close> has a count that converts
  and no \<^verbatim>\<open>downlink_count\<close>: the record holds 42 and 0 and two empty timestamps.
  \<^verbatim>\<open>{"uplink_count": 2, "last_uplink_received_at": [1]}\<close> is returned with the list kept
  as its timestamp.
\<close>

theorem parse_ttn_stats_counts_witness:
  "(\<exists>r. parse_ttn_stats sample_lib 1765104012 (PDict [(''uplink_count'', PStr ''42'')]) 600 = Inr r \<and>
       uplink_count r = 42 \<and> downlink_count r = 0 \<and>
       last_uplink_received_at r = PStr [] \<and> last_downlink_received_at r = PStr []) \<and>
   (\<exists>r. parse_ttn_stats sample_lib 1765104012
          (PDict [(''uplink_count'', PInt 2), (''last_uplink_received_at'', PList [PInt 1])]) 600 =
          Inr r \<and>
       uplink_count r = 2 \<and> downlink_count r = 0 \<and>
       last_uplink_received_at r = PList [PInt 1])"
proof -
  have one: "\<exists>r. parse_ttn_stats sample_lib 1765104012 (PDict [(''uplink_count'', PStr ''42'')]) 600 = Inr r \<and>
       uplink_count r = 42 \<and> downlink_count r = 0 \<and>
       last_uplink_received_at r = PStr [] \<and> last_downlink_received_at r = PStr []"
  proof -
    let ?kvs = "[(''uplink_count'', PStr ''42'')]"
    note inst = parse_ttn_stats_counts [of sample_lib 1765104012 "PDict ?kvs" 600]
    have conv: "\<exists>kvs u d. PDict ?kvs = PDict kvs \<and>
          py_int sample_lib (case map_of kvs ''uplink_count'' of None \<Rightarrow> PInt 0 | Some v \<Rightarrow> v) = Inr u \<and>
          py_int sample_lib (case map_of kvs ''downlink_count'' of None \<Rightarrow> PInt 0 | Some v \<Rightarrow> v) = Inr d"
      by (simp add: sample_lib_def)
    with inst obtain r where r: "parse_ttn_stats sample_lib 1765104012 (PDict ?kvs) 600 = Inr r"
      by blast
    with inst have "py_int sample_lib (case map_of ?kvs ''uplink_count'' of
                     None \<Rightarrow> PInt 0 | Some v \<Rightarrow> v) = Inr (uplink_count r)"
      and "map_of ?kvs ''downlink_count'' = None \<longrightarrow> downlink_count r = 0"
      and "last_uplink_received_at r =
             (case map_of ?kvs ''last_uplink_received_at'' of None \<Rightarrow> PStr [] | Some v \<Rightarrow> v)"
      and "last_downlink_received_at r =
             (case map_of ?kvs ''last_downlink_received_at'' of None \<Rightarrow> PStr [] | Some v \<Rightarrow> v)"
      by blast+
    then have "uplink_count r = 42" and "downlink_count r = 0"
      and "last_uplink_received_at r = PStr []" and "last_downlink_received_at r = PStr []"
      by (simp_all add: sample_lib_def)
    with r show ?thesis by blast
  qed
  have two: "\<exists>r. parse_ttn_stats sample_lib 1765104012
          (PDict [(''uplink_count'', PInt 2), (''last_uplink_received_at'', PList [PInt 1])]) 600 =
          Inr r \<and>
       uplink_count r = 2 \<and> downlink_count r = 0 \<and>
       last_uplink_received_at r = PList [PInt 1]"
  proof -
    let ?kvs = "[(''uplink_count'', PInt 2), (''last_uplink_received_at'', PList [PInt 1])]"
    note inst = parse_ttn_stats_counts [of sample_lib 1765104012 "PDict ?kvs" 600]
    have conv: "\<exists>kvs u d. PDict ?kvs = PDict kvs \<and>
          py_int sample_lib (case map_of kvs ''uplink_count'' of None \<Rightarrow> PInt 0 | Some v \<Rightarrow> v) = Inr u \<and>
          py_int sample_lib (case map_of kvs ''downlink_count'' of None \<Rightarrow> PInt 0 | Some v \<Rightarrow> v) = Inr d"
      by simp
    with inst obtain r where r: "parse_ttn_stats sample_lib 1765104012 (PDict ?kvs) 600 = Inr r"
      by blast
    with inst have "py_int sample_lib (case map_of ?kvs ''uplink_count'' of
                     None \<Rightarrow> PInt 0 | Some v \<Rightarrow> v) = Inr (uplink_count r)"
      and "map_of ?kvs ''downlink_count'' = None \<longrightarrow> downlink_count r = 0"
      and "last_uplink_received_at r =
             (case map_of ?kvs ''last_uplink_received_at'' of None \<Rightarrow> PStr [] | Some v \<Rightarrow> v)"
      by blast+
    then have "uplink_count r = 2" and "downlink_count r = 0"
      and "last_uplink_received_at r = PList [PInt 1]"
      by simp_all
    with r show ?thesis by blast
  qed
  from one two show ?thesis by blast
qed

text \<open>
  Claim C3. Whatever the input (absent, or any document with any timestamp), a record that
  \<^const>\<open>parse_ttn_stats\<close> returns has its connected flag true only if its uplink count
  is strictly positive; in particular a document whose \<^verbatim>\<open>uplink_count\<close> is 0 gives
  connected false, however fresh \<^verbatim>\<open>last_uplink_received_at\<close> is.
\<close>

theorem parse_ttn_stats_connected_uplink:
  assumes "parse_ttn_stats lib now_utc data max_age_seconds = Inr r"
  shows "(ttn_stats.connected r \<longrightarrow> 0 < uplink_count r) \<and>
         (py_get data ''uplink_count'' (PInt 0) = Inr (PInt 0) \<longrightarrow> \<not> ttn_stats.connected r)"
  using assms
  by (auto simp: parse_ttn_stats_def zero_stats_def Let_def
           split: if_splits sum.splits dest: age_check_Inr)

lemma sample_fresh_zero:
  "parse_ttn_stats sample_lib 1765104013
     (PDict [(''uplink_count'', PInt 0),
             (''last_uplink_received_at'', PStr ''2025-12-07T10:40:12Z'')])
     600 =
   Inr \<lparr>uplink_count = 0, downlink_count = 0,
        last_uplink_received_at = PStr ''2025-12-07T10:40:12Z'',
        last_downlink_received_at = PStr [], connected = False\<rparr>"
  by (simp add: parse_ttn_stats_def age_check_def replace_Z_sample sample_lib_def)

text \<open>
  A run: \<^verbatim>\<open>uplink_count\<close> 0 with a last uplink one second old; the record is returned
  and is not connected.
\<close>

theorem parse_ttn_stats_connected_uplink_witness:
  "\<exists>r. parse_ttn_stats sample_lib 1765104013
         (PDict [(''uplink_count'', PInt 0),
                 (''last_uplink_received_at'', PStr ''2025-12-07T10:40:12Z'')])
         600 = Inr r \<and>
       uplink_count r = 0 \<and> \<not> ttn_stats.connected r"
  using parse_ttn_stats_connected_uplink [OF sample_fresh_zero] sample_fresh_zero
  by simp

text \<open>
  Claim C4. Take a document whose counts convert, whose uplink count is positive and whose
  \<^verbatim>\<open>last_uplink_received_at\<close> is a non-empty string that \<^verbatim>\<open>fromisoformat\<close> reads as an
  instant (a datetime with an offset). Then \<^const>\<open>parse_ttn_stats\<close> returns a record
  whose connected flag equals \<open>age \<le> max_age_seconds\<close>, where the age is the clock minus the
  instant: with 600 seconds allowed, an age of 601 gives false, an age of 599 gives true,
  and an age of exactly \<open>max_age_seconds\<close> counts as connected.
\<close>

theorem parse_ttn_stats_staleness:
  assumes "py_int lib (case map_of kvs ''uplink_count'' of None \<Rightarrow> PInt 0 | Some v \<Rightarrow> v) = Inr u"
    and "py_int lib (case map_of kvs ''downlink_count'' of None \<Rightarrow> PInt 0 | Some v \<Rightarrow> v) = Inr d"
    and "0 < u"
    and "map_of kvs ''last_uplink_received_at'' = Some (PStr s)"
    and "s \<noteq> []"
    and "fromisoformat lib (replace_Z s) = Some (Aware t_last)"
  shows "\<exists>r. parse_ttn_stats lib now_utc (PDict kvs) max_age_seconds = Inr r \<and>
           ttn_stats.connected r = (now_utc - t_last \<le> max_age_seconds) \<and>
           (max_age_seconds = 600 \<and> now_utc - t_last = 601 \<longrightarrow> \<not> ttn_stats.connected r) \<and>
           (max_age_seconds = 600 \<and> now_utc - t_last = 599 \<longrightarrow> ttn_stats.connected r) \<and>
           (now_utc - t_last = max_age_seconds \<longrightarrow> ttn_stats.connected r)"
  using assms(3-6)
  by (simp add: parse_ttn_stats_dict [OF assms(1,2)] age_check_def Let_def)

text \<open>
  Runs with \<^verbatim>\<open>uplink_count\<close> 7 and the last uplink at 2025-12-07T10:40:12Z, 600 seconds
  allowed: the clock 599 seconds later (through the theorem), then 601 and 600 seconds
  later (by evaluation).
\<close>

theorem parse_ttn_stats_staleness_witness:
  "\<exists>r. parse_ttn_stats sample_lib (1765104012 + 599)
         (PDict [(''uplink_count'', PInt 7),
                 (''last_uplink_received_at'', PStr ''2025-12-07T10:40:12Z'')]) 600 = Inr r \<and>
       ttn_stats.connected r"
  using parse_ttn_stats_staleness
    [of sample_lib "[(''uplink_count'', PInt 7),
                     (''last_uplink_received_at'', PStr ''2025-12-07T10:40:12Z'')]" 7 0
        "''2025-12-07T10:40:12Z''" 1765104012 "1765104012 + 599" 600]
  by (simp add: replace_Z_sample sample_lib_def)

lemma parse_ttn_stats_aged_601:
  "parse_ttn_stats sample_lib (1765104012 + 601)
         (PDict [(''uplink_count'', PInt 7),
                 (''last_uplink_received_at'', PStr ''2025-12-07T10:40:12Z'')]) 600 =
   Inr \<lparr>uplink_count = 7, downlink_count = 0,
        last_uplink_received_at = PStr ''2025-12-07T10:40:12Z'',
        last_downlink_received_at = PStr [], connected = False\<rparr>"
  by (simp add: parse_ttn_stats_def age_check_def replace_Z_sample sample_lib_def)

lemma parse_ttn_stats_aged_600:
  "parse_ttn_stats sample_lib (1765104012 + 600)
         (PDict [(''uplink_count'', PInt 7),
                 (''last_uplink_received_at'', PStr ''2025-12-07T10:40:12Z'')]) 600 =
   Inr \<lparr>uplink_count = 7, downlink_count = 0,
        last_uplink_received_at = PStr ''2025-12-07T10:40:12Z'',
        last_downlink_received_at = PStr [], connected = True\<rparr>"
  by (simp add: parse_ttn_stats_def age_check_def replace_Z_sample sample_lib_def)

text \<open>
  A timestamp without an offset is no instant: the subtraction raises, the \<^verbatim>\<open>except\<close>
  clause answers, and the age plays no part.
\<close>

lemma parse_ttn_stats_naive_timestamp:
  "parse_ttn_stats sample_lib (1765104012 + 601)
         (PDict [(''uplink_count'', PInt 7),
                 (''last_uplink_received_at'', PStr ''2025-12-07T10:40:12'')]) 600 =
   Inr \<lparr>uplink_count = 7, downlink_count = 0,
        last_uplink_received_at = PStr ''2025-12-07T10:40:12'',
        last_downlink_received_at = PStr [], connected = True\<rparr>"
  by (simp add: parse_ttn_stats_def age_check_def replace_Z_def sample_lib_def)

text \<open>
  Claim C6. Take a document whose counts convert and whose \<^verbatim>\<open>last_uplink_received_at\<close>
  is a string (the empty string when the field is missing). When the string is non-empty
  and \<^verbatim>\<open>fromisoformat\<close> rejects it, the record's connected flag is
  \<open>uplink_count > 0\<close>, so it is true for an uplink count of 3; when the string is empty,
  connected is false whatever the counts are.
\<close>

theorem parse_ttn_stats_timestamp_fallback:
  assumes "py_int lib (case map_of kvs ''uplink_count'' of None \<Rightarrow> PInt 0 | Some v \<Rightarrow> v) = Inr u"
    and "py_int lib (case map_of kvs ''downlink_count'' of None \<Rightarrow> PInt 0 | Some v \<Rightarrow> v) = Inr d"
    and "(case map_of kvs ''last_uplink_received_at'' of None \<Rightarrow> PStr [] | Some v \<Rightarrow> v) = PStr s"
  shows "\<exists>r. parse_ttn_stats lib now_utc (PDict kvs) max_age_seconds = Inr r \<and>
           uplink_count r = u \<and> downlink_count r = d \<and>
           (s \<noteq> [] \<and> fromisoformat lib (replace_Z s) = None \<longrightarrow>
              ttn_stats.connected r = (0 < u)) \<and>
           (s \<noteq> [] \<and> fromisoformat lib (replace_Z s) = None \<and> u = 3 \<longrightarrow>
              ttn_stats.connected r) \<and>
           (s = [] \<longrightarrow> \<not> ttn_stats.connected r)"
  using assms(3)
  by (simp add: parse_ttn_stats_dict [OF assms(1,2)] age_check_def Let_def)

text \<open>
  Two runs: \<^verbatim>\<open>"not-a-date"\<close> with an uplink count of 3 is connected; the empty timestamp
  with counts 3 and 9 is not.
\<close>

theorem parse_ttn_stats_timestamp_fallback_witness:
  "(\<exists>r. parse_ttn_stats sample_lib 1765104012
         (PDict [(''uplink_count'', PInt 3),
                 (''last_uplink_received_at'', PStr ''not-a-date'')]) 600 = Inr r \<and>
       uplink_count r = 3 \<and> downlink_count r = 0 \<and> ttn_stats.connected r) \<and>
   (\<exists>r. parse_ttn_stats sample_lib 1765104012
         (PDict [(''uplink_count'', PInt 3), (''downlink_count'', PInt 9),
                 (''last_uplink_received_at'', PStr [])]) 600 = Inr r \<and>
       uplink_count r = 3 \<and> downlink_count r = 9 \<and> \<not> ttn_stats.connected r)"
  using parse_ttn_stats_timestamp_fallback
    [of sample_lib "[(''uplink_count'', PInt 3),
                     (''last_uplink_received_at'', PStr ''not-a-date'')]" 3 0 "''not-a-date''"
        1765104012 600]
    parse_ttn_stats_timestamp_fallback
    [of sample_lib "[(''uplink_count'', PInt 3), (''downlink_count'', PInt 9),
                     (''last_uplink_received_at'', PStr [])]" 3 9 "[]"
        1765104012 600]
  by (simp add: replace_Z_not_a_date sample_lib_def)

section \<open>Properties of the log functions\<close>

lemma py_strip_Nil_iff: "py_strip s = [] \<longleftrightarrow> (\<forall>c\<in>set s. py_isspace c)"
proof
  assume e: "py_strip s = []"
  show "\<forall>c\<in>set s. py_isspace c"
  proof (cases "dropWhile py_isspace s")
    case Nil
    then show ?thesis by simp
  next
    case (Cons x xs)
    then have "\<not> py_isspace x" by (metis hd_dropWhile list.sel(1) list.distinct(1))
    moreover from e have "\<forall>c\<in>set (rev (dropWhile py_isspace s)). py_isspace c"
      by (simp add: py_strip_def)
    ultimately show ?thesis using Cons by simp
  qed
next
  assume "\<forall>c\<in>set s. py_isspace c"
  then have "dropWhile py_isspace s = []" by simp
  then show "py_strip s = []" unfolding py_strip_def by (simp only: rev.simps dropWhile.simps)
qed

lemma sublist_marker_not_blank:
  assumes "sublist ''[S2E:'' line"
  shows "py_strip line \<noteq> []"
proof -
  from assms have "CHR ''['' \<in> set line" by (auto simp: sublist_def)
  moreover have "\<not> py_isspace CHR ''[''" by (simp add: py_isspace_def)
  ultimately show ?thesis by (auto simp: py_strip_Nil_iff)
qed

lemma blank_not_rx: "py_strip line = [] \<Longrightarrow> \<not> rx_line line"
  using sublist_marker_not_blank by (auto simp: rx_line_def)

lemma blank_not_tx: "py_strip line = [] \<Longrightarrow> \<not> tx_line line"
  using sublist_marker_not_blank by (auto simp: tx_line_def)

text \<open>
  The counters of the loop are the numbers of lines that pass the two tests: skipping a
  blank line skips no line that would count.
\<close>

lemma parse_loop_counts:
  "fst (parse_loop cfg lines a b out) = a + length (filter rx_line lines) \<and>
   fst (snd (parse_loop cfg lines a b out)) = b + length (filter tx_line lines)"
proof (induction lines arbitrary: a b out)
  case Nil
  show ?case by simp
next
  case (Cons line lines)
  show ?case
  proof (cases "py_strip line = []")
    case True
    with Cons blank_not_rx blank_not_tx show ?thesis by simp
  next
    case False
    with Cons show ?thesis by (simp add: Let_def split: prod.splits)
  qed
qed

lemma parse_log_lines_counts:
  "rx (fst (parse_log_lines cfg lines)) = length (filter rx_line lines) \<and>
   tx (fst (parse_log_lines cfg lines)) = length (filter tx_line lines)"
  using parse_loop_counts [of cfg lines 0 0 "[]"]
  by (auto simp: parse_log_lines_def split: prod.splits)

lemma get_gateway_stats_fields:
  assumes "fst (get_docker_logs cfg docker container_name 100) = lines"
  shows "rx_total (fst (get_gateway_stats cfg docker stamp container_name)) =
           length (filter rx_line lines) \<and>
         tx_total (fst (get_gateway_stats cfg docker stamp container_name)) =
           length (filter tx_line lines) \<and>
         local_stats.connected (fst (get_gateway_stats cfg docker stamp container_name)) =
           (\<exists>l \<in> set (drop (length lines - 50) lines). rx_line l)"
  using assms parse_log_lines_counts [of cfg lines]
  by (auto simp: get_gateway_stats_def Let_def list_ex_iff split: prod.splits)

text \<open>
  Claim C5. With \<open>lines\<close> the lines that \<^const>\<open>get_docker_logs\<close> hands over,
  \<^const>\<open>get_gateway_stats\<close> counts the uplink and downlink lines of the whole of \<open>lines\<close>
  and sets connected from the last 50 lines only (from all of them when there are fewer
  than 50). For 60 lines of which exactly the first five are uplink lines, the result has
  \<^verbatim>\<open>rx_total\<close> 5 and connected false; for no lines at all it has 0, 0 and false.
\<close>

theorem get_gateway_stats_window:
  assumes "fst (get_docker_logs cfg docker container_name 100) = lines"
  shows "rx_total (fst (get_gateway_stats cfg docker stamp container_name)) =
           length (filter rx_line lines) \<and>
         tx_total (fst (get_gateway_stats cfg docker stamp container_name)) =
           length (filter tx_line lines) \<and>
         local_stats.connected (fst (get_gateway_stats cfg docker stamp container_name)) =
           (\<exists>l \<in> set (drop (length lines - 50) lines). rx_line l) \<and>
         (length lines < 50 \<longrightarrow>
            local_stats.connected (fst (get_gateway_stats cfg docker stamp container_name)) =
              (\<exists>l \<in> set lines. rx_line l)) \<and>
         (\<forall>older recent. lines = older @ recent \<and> length older = 5 \<and> length recent = 55 \<and>
              (\<forall>l \<in> set older. rx_line l) \<and> (\<forall>l \<in> set recent. \<not> rx_line l) \<longrightarrow>
            rx_total (fst (get_gateway_stats cfg docker stamp container_name)) = 5 \<and>
            \<not> local_stats.connected (fst (get_gateway_stats cfg docker stamp container_name))) \<and>
         (lines = [] \<longrightarrow>
            rx_total (fst (get_gateway_stats cfg docker stamp container_name)) = 0 \<and>
            tx_total (fst (get_gateway_stats cfg docker stamp container_name)) = 0 \<and>
            \<not> local_stats.connected (fst (get_gateway_stats cfg docker stamp container_name)))"
proof -
  note f = get_gateway_stats_fields [OF assms, of stamp]
  have short: "length lines < 50 \<longrightarrow>
            local_stats.connected (fst (get_gateway_stats cfg docker stamp container_name)) =
              (\<exists>l \<in> set lines. rx_line l)"
    using f by simp
  have sixty: "\<forall>older recent. lines = older @ recent \<and> length older = 5 \<and> length recent = 55 \<and>
              (\<forall>l \<in> set older. rx_line l) \<and> (\<forall>l \<in> set recent. \<not> rx_line l) \<longrightarrow>
            rx_total (fst (get_gateway_stats cfg docker stamp container_name)) = 5 \<and>
            \<not> local_stats.connected (fst (get_gateway_stats cfg docker stamp container_name))"
  proof (intro allI impI)
    fix older recent
    assume h: "lines = older @ recent \<and> length older = 5 \<and> length recent = 55 \<and>
              (\<forall>l \<in> set older. rx_line l) \<and> (\<forall>l \<in> set recent. \<not> rx_line l)"
    then have "filter rx_line lines = older"
      by (simp add: filter_id_conv filter_empty_conv)
    with h have n: "length (filter rx_line lines) = 5" by simp
    from h have "drop (length lines - 50) lines = drop 5 recent" by simp
    then have "set (drop (length lines - 50) lines) \<subseteq> set recent"
      by (simp add: set_drop_subset)
    with h have "\<not> (\<exists>l \<in> set (drop (length lines - 50) lines). rx_line l)" by blast
    with f n show "rx_total (fst (get_gateway_stats cfg docker stamp container_name)) = 5 \<and>
            \<not> local_stats.connected (fst (get_gateway_stats cfg docker stamp container_name))"
      by simp
  qed
  have none: "lines = [] \<longrightarrow>
            rx_total (fst (get_gateway_stats cfg docker stamp container_name)) = 0 \<and>
            tx_total (fst (get_gateway_stats cfg docker stamp container_name)) = 0 \<and>
            \<not> local_stats.connected (fst (get_gateway_stats cfg docker stamp container_name))"
    using f by simp
  from f short sixty none show ?thesis by blast
qed

text \<open>One step of \<^const>\<open>splitlines_from\<close>, whatever follows the character.\<close>

lemma splitlines_from_Cons:
  "splitlines_from cur (c # cs) =
     (if c = CHR 0x0D \<and> cs \<noteq> [] \<and> hd cs = CHR 0x0A then cur # splitlines_from [] (tl cs)
      else if is_linebreak c then cur # splitlines_from [] cs
      else splitlines_from (cur @ [c]) cs)"
  by (cases cs) simp_all

lemma splitlines_from_line:
  assumes "\<forall>c\<in>set l. \<not> is_linebreak c"
  shows "splitlines_from cur (l @ CHR 0x0A # rest) = (cur @ l) # splitlines_from [] rest"
  using assms
proof (induction l arbitrary: cur)
  case Nil
  show ?case by (simp add: splitlines_from_Cons is_linebreak_def)
next
  case (Cons c l)
  then have "\<not> is_linebreak c" by simp
  moreover then have "c \<noteq> CHR 0x0D" by (auto simp: is_linebreak_def)
  ultimately show ?case using Cons by (simp add: splitlines_from_Cons)
qed

lemma py_splitlines_unlines:
  assumes "\<forall>l\<in>set ls. \<forall>c\<in>set l. \<not> is_linebreak c"
  shows "py_splitlines (concat (map (\<lambda>l. l @ [CHR 0x0A]) ls)) = ls"
  using assms unfolding py_splitlines_def
proof (induction ls)
  case Nil
  show ?case by simp
next
  case (Cons l ls)
  then show ?case using splitlines_from_line [of l "[]"] by simp
qed

lemma sample_rx_line: "rx_line ''[S2E:VERB] RX 868.1MHz''"
  by (simp add: rx_line_def sublist_Cons_right)

lemma idle_not_rx_line: "\<not> rx_line ''idle''"
  by (simp add: rx_line_def sublist_Cons_right)

lemma sample_lines_split: "py_splitlines sample_log = sample_lines"
  unfolding sample_log_def
  by (rule py_splitlines_unlines) (auto simp: sample_lines_def is_linebreak_def)

text \<open>
  A run on the 60-line log: five uplink lines counted, none of them among the last 50, so
  not connected.
\<close>

theorem get_gateway_stats_window_witness:
  "rx_total (fst (get_gateway_stats default_config (\<lambda>name n. LogsText sample_log)
                    ''2025-12-07T10:40:12'' ''basicstation'')) = 5 \<and>
   \<not> local_stats.connected (fst (get_gateway_stats default_config (\<lambda>name n. LogsText sample_log)
                    ''2025-12-07T10:40:12'' ''basicstation''))"
proof -
  have lines: "fst (get_docker_logs default_config (\<lambda>name n. LogsText sample_log)
                      ''basicstation'' 100) = sample_lines"
    by (simp add: get_docker_logs_def Let_def sample_lines_split)
  have shape: "sample_lines = replicate 5 ''[S2E:VERB] RX 868.1MHz'' @ replicate 55 ''idle'' \<and>
      length (replicate 5 ''[S2E:VERB] RX 868.1MHz'') = 5 \<and>
      length (replicate 55 ''idle'') = 55 \<and>
      (\<forall>l \<in> set (replicate 5 ''[S2E:VERB] RX 868.1MHz''). rx_line l) \<and>
      (\<forall>l \<in> set (replicate 55 ''idle''). \<not> rx_line l)"
    using sample_rx_line idle_not_rx_line by (simp add: sample_lines_def)
  from get_gateway_stats_window [OF lines, of "''2025-12-07T10:40:12''"] shape
  show ?thesis by blast
qed

text \<open>
  Claim C10. The two tests of \<^const>\<open>parse_log_lines\<close> are not exclusive. A line that
  holds \<^verbatim>\<open>[S2E:\<close> together with both \<^verbatim>\<open> RX \<close> and \<^verbatim>\<open> TX \<close> (such a line is never
  blank) passes both: alone it gives the counts 1 and 1, and among other lines it adds one
  to the uplink count and one to the downlink count.
\<close>

theorem parse_log_lines_rx_and_tx:
  assumes "sublist ''[S2E:'' line" and "sublist '' RX '' line" and "sublist '' TX '' line"
  shows "py_strip line \<noteq> [] \<and>
         fst (parse_log_lines cfg [line]) = \<lparr>rx = 1, tx = 1\<rparr> \<and>
         rx (fst (parse_log_lines cfg (before @ line # after))) =
           rx (fst (parse_log_lines cfg (before @ after))) + 1 \<and>
         tx (fst (parse_log_lines cfg (before @ line # after))) =
           tx (fst (parse_log_lines cfg (before @ after))) + 1"
proof -
  from assms have r: "rx_line line" and t: "tx_line line"
    by (simp_all add: rx_line_def tx_line_def)
  from assms(1) have nb: "py_strip line \<noteq> []" by (rule sublist_marker_not_blank)
  have one: "fst (parse_log_lines cfg [line]) = \<lparr>rx = 1, tx = 1\<rparr>"
    using r t nb by (simp add: parse_log_lines_def Let_def)
  from r t show ?thesis
    using nb one by (simp add: parse_log_lines_counts)
qed

text \<open>A run on one line of that kind, alone and between two other lines.\<close>

theorem parse_log_lines_rx_and_tx_witness:
  "fst (parse_log_lines default_config [''[S2E:VERB] RX 868.1MHz TX done'']) =
     \<lparr>rx = 1, tx = 1\<rparr> \<and>
   rx (fst (parse_log_lines default_config
             [''[S2E:VERB] RX 868.1MHz'', ''[S2E:VERB] RX 868.1MHz TX done'', ''idle''])) =
     rx (fst (parse_log_lines default_config [''[S2E:VERB] RX 868.1MHz'', ''idle''])) + 1 \<and>
   tx (fst (parse_log_lines default_config
             [''[S2E:VERB] RX 868.1MHz'', ''[S2E:VERB] RX 868.1MHz TX done'', ''idle''])) =
     tx (fst (parse_log_lines default_config [''[S2E:VERB] RX 868.1MHz'', ''idle''])) + 1"
proof -
  have a: "sublist ''[S2E:'' ''[S2E:VERB] RX 868.1MHz TX done''"
    and b: "sublist '' RX '' ''[S2E:VERB] RX 868.1MHz TX done''"
    and c: "sublist '' TX '' ''[S2E:VERB] RX 868.1MHz TX done''"
    by (simp_all add: sublist_Cons_right)
  from parse_log_lines_rx_and_tx [OF a b c, of default_config "[''[S2E:VERB] RX 868.1MHz'']" "[''idle'']"]
  show ?thesis by simp
qed






section \<open>Properties of the loop of publish\_stats\<close>

text \<open>What a TTN block that returns has done: nothing, or its work with \<^verbatim>\<open>last_ttn\<close> reset.\<close>

lemma remote_block_first_Inr:
  assumes "remote_block_first cfg lib mqtt_publish interval w now st = (out, Inr st1)"
  shows "(now - last_ttn st \<ge> interval \<and> st1 = st\<lparr>last_ttn := now\<rparr>) \<or>
         (\<not> now - last_ttn st \<ge> interval \<and> st1 = st \<and> out = [])"
  using assms
  by (auto simp: remote_block_first_def split: if_splits prod.splits sum.splits option.splits)

lemma remote_block_second_skip:
  "\<not> now - last_ttn st \<ge> interval \<Longrightarrow>
   remote_block_second cfg lib mqtt_publish interval w now st = ([], Inr st)"
  by (simp add: remote_block_second_def)

lemma publish_all_no_http_get:
  "filter is_http_get (fst (publish_all mqtt_publish msgs)) = []"
  by (induction msgs) (auto split: option.splits prod.splits)

lemma fetch_ttn_stats_http_get:
  "length (filter is_http_get (snd (fetch_ttn_stats cfg http))) \<le> 1"
  by (auto simp: fetch_ttn_stats_def Let_def split: http_reply.splits)

lemma remote_block_first_http_get:
  "length (filter is_http_get (fst (remote_block_first cfg lib mqtt_publish interval w now st))) \<le> 1"
proof (cases "now - last_ttn st \<ge> interval")
  case False
  then show ?thesis by (simp add: remote_block_first_def)
next
  case True
  obtain ttn_raw out1 where f: "fetch_ttn_stats cfg (http_get w) = (ttn_raw, out1)"
    by (cases "fetch_ttn_stats cfg (http_get w)")
  with fetch_ttn_stats_http_get [of cfg "http_get w"]
  have o1: "length (filter is_http_get out1) \<le> 1" by simp
  show ?thesis
  proof (cases "parse_ttn_stats lib (utc_clock w) ttn_raw default_max_age_seconds")
    case (Inl e)
    with True f o1 show ?thesis by (simp add: remote_block_first_def)
  next
    case (Inr ttn)
    let ?msgs = "[(TOPIC_PREFIX cfg @ ''/ttn/uplink_count'', PInt (uplink_count ttn)),
                     (TOPIC_PREFIX cfg @ ''/ttn/downlink_count'', PInt (downlink_count ttn)),
                     (TOPIC_PREFIX cfg @ ''/ttn/last_uplink_received_at'',
                        last_uplink_received_at ttn),
                     (TOPIC_PREFIX cfg @ ''/ttn/last_downlink_received_at'',
                        last_downlink_received_at ttn),
                     (TOPIC_PREFIX cfg @ ''/ttn/connected'',
                        PStr (if ttn_stats.connected ttn then ''1'' else ''0'')),
                     (TOPIC_PREFIX cfg @ ''/ttn/last_update'', PStr (iso_clock w))]"
    obtain out2 res where p: "publish_all mqtt_publish ?msgs = (out2, res)"
      by (cases "publish_all mqtt_publish ?msgs")
    with publish_all_no_http_get [of mqtt_publish ?msgs]
    have o2: "filter is_http_get out2 = []" by simp
    from True f Inr p o1 o2 show ?thesis
      by (cases res) (simp_all add: remote_block_first_def)
  qed
qed

text \<open>
  Claim C9. In one pass of the loop, for any positive interval, the second TTN block never
  runs: when the first block returns, the guard on \<^verbatim>\<open>last_ttn\<close> is false at the second
  block (the first block has either left the guard false or reset \<^verbatim>\<open>last_ttn\<close> to the
  pass's \<^verbatim>\<open>now\<close>), so the second block does nothing and the pass consists of the first
  block's effects and the sleep; when the first block raises, the pass ends at the
  \<^verbatim>\<open>except\<close> clause. So the TTN chain runs at most once in a pass, and a pass makes at
  most one HTTP request.
\<close>

theorem second_block_never_runs:
  assumes "0 < interval"
  shows "(\<forall>out1 st1.
            remote_block_first cfg lib mqtt_publish interval (first_chain w) (time_time w) st =
              (out1, Inr st1) \<longrightarrow>
            \<not> time_time w - last_ttn st1 \<ge> interval \<and>
            remote_block_second cfg lib mqtt_publish interval (second_chain w) (time_time w) st1 =
              ([], Inr st1) \<and>
            loop_iteration cfg lib mqtt_publish interval w st = (out1 @ [Sleep 1], st1)) \<and>
         (\<forall>out1 e.
            remote_block_first cfg lib mqtt_publish interval (first_chain w) (time_time w) st =
              (out1, Inl e) \<longrightarrow>
            loop_iteration cfg lib mqtt_publish interval w st =
              (out1 @ [Console (ErrorPublishLoop e), Sleep 5], st)) \<and>
         length (filter is_http_get (fst (loop_iteration cfg lib mqtt_publish interval w st))) \<le> 1"
proof -
  have ok: "\<forall>out1 st1.
            remote_block_first cfg lib mqtt_publish interval (first_chain w) (time_time w) st =
              (out1, Inr st1) \<longrightarrow>
            \<not> time_time w - last_ttn st1 \<ge> interval \<and>
            remote_block_second cfg lib mqtt_publish interval (second_chain w) (time_time w) st1 =
              ([], Inr st1) \<and>
            loop_iteration cfg lib mqtt_publish interval w st = (out1 @ [Sleep 1], st1)"
  proof (intro allI impI)
    fix out1 st1
    assume b: "remote_block_first cfg lib mqtt_publish interval (first_chain w) (time_time w) st =
              (out1, Inr st1)"
    from remote_block_first_Inr [OF b] assms
    have g: "\<not> time_time w - last_ttn st1 \<ge> interval" by auto
    then have s: "remote_block_second cfg lib mqtt_publish interval (second_chain w) (time_time w) st1 =
              ([], Inr st1)"
      by (rule remote_block_second_skip)
    from b s have "loop_iteration cfg lib mqtt_publish interval w st = (out1 @ [Sleep 1], st1)"
      by (simp add: loop_iteration_def Let_def)
    with g s show "\<not> time_time w - last_ttn st1 \<ge> interval \<and>
            remote_block_second cfg lib mqtt_publish interval (second_chain w) (time_time w) st1 =
              ([], Inr st1) \<and>
            loop_iteration cfg lib mqtt_publish interval w st = (out1 @ [Sleep 1], st1)"
      by blast
  qed
  have err: "\<forall>out1 e.
            remote_block_first cfg lib mqtt_publish interval (first_chain w) (time_time w) st =
              (out1, Inl e) \<longrightarrow>
            loop_iteration cfg lib mqtt_publish interval w st =
              (out1 @ [Console (ErrorPublishLoop e), Sleep 5], st)"
    by (simp add: loop_iteration_def Let_def)
  have http: "length (filter is_http_get (fst (loop_iteration cfg lib mqtt_publish interval w st))) \<le> 1"
  proof (cases "remote_block_first cfg lib mqtt_publish interval (first_chain w) (time_time w) st")
    case (Pair out1 res)
    with remote_block_first_http_get
           [of cfg lib mqtt_publish interval "first_chain w" "time_time w" st]
    have o: "length (filter is_http_get out1) \<le> 1" by simp
    show ?thesis
    proof (cases res)
      case (Inl e)
      with Pair err o show ?thesis by simp
    next
      case (Inr st1)
      with Pair ok o show ?thesis by simp
    qed
  qed
  from ok err http show ?thesis by blast
qed

text \<open>The first block at work in the world of the concrete runs.\<close>

lemma first_block_fires:
  assumes "t - last_ttn st \<ge> 10"
  shows "remote_block_first default_config sample_lib accept_all 10 quiet_chain t st =
     ([MqttPublish ''gateways/ttn/uplink_count'' (PInt 0) True,
       MqttPublish ''gateways/ttn/downlink_count'' (PInt 0) True,
       MqttPublish ''gateways/ttn/last_uplink_received_at'' (PStr []) True,
       MqttPublish ''gateways/ttn/last_downlink_received_at'' (PStr []) True,
       MqttPublish ''gateways/ttn/connected'' (PStr ''0'') True,
       MqttPublish ''gateways/ttn/last_update'' (PStr ''2025-12-07T10:40:12'') True,
       Console (PrintTTNConnected 0 0 False)],
      Inr (st\<lparr>last_ttn := t\<rparr>))"
  using assms
  by (simp add: remote_block_first_def fetch_ttn_stats_def default_config_def
        parse_ttn_stats_def zero_stats_def accept_all_def quiet_chain_def)

lemma first_block_idle:
  assumes "\<not> t - last_ttn st \<ge> 10"
  shows "remote_block_first cfg lib mqtt_publish 10 w t st = ([], Inr st)"
  using assms by (simp add: remote_block_first_def)

text \<open>
  A pass at the tenth second of a fresh scheduler: the first block publishes the zero
  record, the second block does nothing.
\<close>

theorem second_block_never_runs_witness:
  "remote_block_second default_config sample_lib accept_all 10 quiet_chain 10
     \<lparr>last_local = 0, last_ttn = 10\<rparr> = ([], Inr \<lparr>last_local = 0, last_ttn = 10\<rparr>) \<and>
   loop_iteration default_config sample_lib accept_all 10 (tick_at 10) initial_sched =
     ([MqttPublish ''gateways/ttn/uplink_count'' (PInt 0) True,
       MqttPublish ''gateways/ttn/downlink_count'' (PInt 0) True,
       MqttPublish ''gateways/ttn/last_uplink_received_at'' (PStr []) True,
       MqttPublish ''gateways/ttn/last_downlink_received_at'' (PStr []) True,
       MqttPublish ''gateways/ttn/connected'' (PStr ''0'') True,
       MqttPublish ''gateways/ttn/last_update'' (PStr ''2025-12-07T10:40:12'') True,
       Console (PrintTTNConnected 0 0 False),
       Sleep 1],
      \<lparr>last_local = 0, last_ttn = 10\<rparr>)"
proof -
  have pos: "(0::real) < 10" by simp
  have due: "(10::real) - last_ttn initial_sched \<ge> 10" by (simp add: initial_sched_def)
  from second_block_never_runs [OF pos, of default_config sample_lib accept_all "tick_at 10" initial_sched]
       first_block_fires [OF due]
  show ?thesis by (simp add: tick_at_def initial_sched_def)
qed

text \<open>
  The passes of the concrete world: nothing but the sleep while fewer than ten seconds have
  gone by since \<^verbatim>\<open>last_ttn\<close>, the TTN messages otherwise.
\<close>

lemma idle_pass:
  assumes "\<not> t - last_ttn st \<ge> 10"
  shows "loop_iteration default_config sample_lib accept_all 10 (tick_at t) st = ([Sleep 1], st)"
  using assms first_block_idle [OF assms] remote_block_second_skip [OF assms]
  by (simp add: loop_iteration_def Let_def tick_at_def)

lemma firing_pass:
  assumes "t - last_ttn st \<ge> 10"
  shows "loop_iteration default_config sample_lib accept_all 10 (tick_at t) st =
     ([MqttPublish ''gateways/ttn/uplink_count'' (PInt 0) True,
       MqttPublish ''gateways/ttn/downlink_count'' (PInt 0) True,
       MqttPublish ''gateways/ttn/last_uplink_received_at'' (PStr []) True,
       MqttPublish ''gateways/ttn/last_downlink_received_at'' (PStr []) True,
       MqttPublish ''gateways/ttn/connected'' (PStr ''0'') True,
       MqttPublish ''gateways/ttn/last_update'' (PStr ''2025-12-07T10:40:12'') True,
       Console (PrintTTNConnected 0 0 False),
       Sleep 1],
      st\<lparr>last_ttn := t\<rparr>)"
proof -
  have "\<not> t - last_ttn (st\<lparr>last_ttn := t\<rparr>) \<ge> 10" by simp
  then have "remote_block_second default_config sample_lib accept_all 10 quiet_chain t
               (st\<lparr>last_ttn := t\<rparr>) = ([], Inr (st\<lparr>last_ttn := t\<rparr>))"
    by (rule remote_block_second_skip)
  with first_block_fires [OF assms] show ?thesis
    by (simp add: loop_iteration_def Let_def tick_at_def)
qed

text \<open>
  No pass of the loop, in any world, asks for the container's log or publishes outside
  the \<^verbatim>\<open>ttn\<close> topics: the local chain is not in the loop.
\<close>

lemma publish_all_ttn_only:
  assumes "\<forall>m\<in>set msgs. prefix (TOPIC_PREFIX cfg @ ''/ttn/'') (fst m)"
  shows "\<forall>x\<in>set (fst (publish_all mqtt_publish msgs)).
           \<not> is_docker_logs x \<and> \<not> is_other_publish cfg x"
  using assms
  by (induction msgs) (auto split: option.splits prod.splits)

lemma fetch_ttn_stats_no_local:
  "\<forall>x\<in>set (snd (fetch_ttn_stats cfg http)). \<not> is_docker_logs x \<and> \<not> is_other_publish cfg x"
  by (auto simp: fetch_ttn_stats_def Let_def split: http_reply.splits)

lemma remote_block_first_no_local:
  "\<forall>x\<in>set (fst (remote_block_first cfg lib mqtt_publish interval w now st)).
     \<not> is_docker_logs x \<and> \<not> is_other_publish cfg x"
proof (cases "now - last_ttn st \<ge> interval")
  case False
  then show ?thesis by (simp add: remote_block_first_def)
next
  case True
  obtain ttn_raw out1 where f: "fetch_ttn_stats cfg (http_get w) = (ttn_raw, out1)"
    by (cases "fetch_ttn_stats cfg (http_get w)")
  with fetch_ttn_stats_no_local [of cfg "http_get w"]
  have o1: "\<forall>x\<in>set out1. \<not> is_docker_logs x \<and> \<not> is_other_publish cfg x" by simp
  show ?thesis
  proof (cases "parse_ttn_stats lib (utc_clock w) ttn_raw default_max_age_seconds")
    case (Inl e)
    with True f o1 show ?thesis by (simp add: remote_block_first_def)
  next
    case (Inr ttn)
    let ?msgs = "[(TOPIC_PREFIX cfg @ ''/ttn/uplink_count'', PInt (uplink_count ttn)),
                     (TOPIC_PREFIX cfg @ ''/ttn/downlink_count'', PInt (downlink_count ttn)),
                     (TOPIC_PREFIX cfg @ ''/ttn/last_uplink_received_at'',
                        last_uplink_received_at ttn),
                     (TOPIC_PREFIX cfg @ ''/ttn/last_downlink_received_at'',
                        last_downlink_received_at ttn),
                     (TOPIC_PREFIX cfg @ ''/ttn/connected'',
                        PStr (if ttn_stats.connected ttn then ''1'' else ''0'')),
                     (TOPIC_PREFIX cfg @ ''/ttn/last_update'', PStr (iso_clock w))]"
    obtain out2 res where p: "publish_all mqtt_publish ?msgs = (out2, res)"
      by (cases "publish_all mqtt_publish ?msgs")
    have "\<forall>m\<in>set ?msgs. prefix (TOPIC_PREFIX cfg @ ''/ttn/'') (fst m)" by simp
    from publish_all_ttn_only [OF this, of mqtt_publish] p
    have o2: "\<forall>x\<in>set out2. \<not> is_docker_logs x \<and> \<not> is_other_publish cfg x" by simp
    from True f Inr p o1 o2 show ?thesis
      by (cases res) (auto simp: remote_block_first_def)
  qed
qed

lemma remote_block_second_no_local:
  "\<forall>x\<in>set (fst (remote_block_second cfg lib mqtt_publish interval w now st)).
     \<not> is_docker_logs x \<and> \<not> is_other_publish cfg x"
proof (cases "now - last_ttn st \<ge> interval")
  case False
  then show ?thesis by (simp add: remote_block_second_def)
next
  case True
  obtain ttn_raw out1 where f: "fetch_ttn_stats cfg (http_get w) = (ttn_raw, out1)"
    by (cases "fetch_ttn_stats cfg (http_get w)")
  with fetch_ttn_stats_no_local [of cfg "http_get w"]
  have o1: "\<forall>x\<in>set out1. \<not> is_docker_logs x \<and> \<not> is_other_publish cfg x" by simp
  show ?thesis
  proof (cases "parse_ttn_stats lib (utc_clock w) ttn_raw default_max_age_seconds")
    case (Inl e)
    with True f o1 show ?thesis by (simp add: remote_block_second_def)
  next
    case (Inr ttn)
    let ?msgs = "[(TOPIC_PREFIX cfg @ ''/ttn/uplink_count'', PInt (uplink_count ttn)),
                     (TOPIC_PREFIX cfg @ ''/ttn/downlink_count'', PInt (downlink_count ttn)),
                     (TOPIC_PREFIX cfg @ ''/ttn/last_uplink_received_at'',
                        last_uplink_received_at ttn),
                     (TOPIC_PREFIX cfg @ ''/ttn/last_downlink_received_at'',
                        last_downlink_received_at ttn),
                     (TOPIC_PREFIX cfg @ ''/ttn/last_update'', PStr (iso_clock w))]"
    obtain out2 res where p: "publish_all mqtt_publish ?msgs = (out2, res)"
      by (cases "publish_all mqtt_publish ?msgs")
    have "\<forall>m\<in>set ?msgs. prefix (TOPIC_PREFIX cfg @ ''/ttn/'') (fst m)" by simp
    from publish_all_ttn_only [OF this, of mqtt_publish] p
    have o2: "\<forall>x\<in>set out2. \<not> is_docker_logs x \<and> \<not> is_other_publish cfg x" by simp
    from True f Inr p o1 o2 show ?thesis
      by (cases res) (auto simp: remote_block_second_def)
  qed
qed

lemma loop_iteration_no_local:
  "\<forall>x\<in>set (fst (loop_iteration cfg lib mqtt_publish interval w st)).
     \<not> is_docker_logs x \<and> \<not> is_other_publish cfg x"
proof (cases "remote_block_first cfg lib mqtt_publish interval (first_chain w) (time_time w) st")
  case (Pair out1 res1)
  with remote_block_first_no_local [of cfg lib mqtt_publish interval "first_chain w" "time_time w" st]
  have o1: "\<forall>x\<in>set out1. \<not> is_docker_logs x \<and> \<not> is_other_publish cfg x" by simp
  show ?thesis
  proof (cases res1)
    case (Inl e)
    with Pair o1 show ?thesis by (auto simp: loop_iteration_def Let_def)
  next
    case (Inr st1)
    obtain out2 res2 where
      s: "remote_block_second cfg lib mqtt_publish interval (second_chain w) (time_time w) st1 = (out2, res2)"
      by (cases "remote_block_second cfg lib mqtt_publish interval (second_chain w) (time_time w) st1")
    with remote_block_second_no_local
           [of cfg lib mqtt_publish interval "second_chain w" "time_time w" st1]
    have o2: "\<forall>x\<in>set out2. \<not> is_docker_logs x \<and> \<not> is_other_publish cfg x" by simp
    from Pair Inr s o1 o2 show ?thesis
      by (cases res2) (auto simp: loop_iteration_def Let_def)
  qed
qed

lemma loop_passes_no_local:
  "\<forall>out\<in>set (fst (loop_passes cfg lib mqtt_publish interval ws st)).
     \<forall>x\<in>set out. \<not> is_docker_logs x \<and> \<not> is_other_publish cfg x"
proof (induction ws arbitrary: st)
  case Nil
  show ?case by simp
next
  case (Cons w ws)
  obtain out st1 where i: "loop_iteration cfg lib mqtt_publish interval w st = (out, st1)"
    by (cases "loop_iteration cfg lib mqtt_publish interval w st")
  with loop_iteration_no_local [of cfg lib mqtt_publish interval w st]
  have "\<forall>x\<in>set out. \<not> is_docker_logs x \<and> \<not> is_other_publish cfg x" by simp
  with i Cons.IH [of st1] show ?case by (auto split: prod.splits)
qed

text \<open>
  Claim C1, on the code. A fresh scheduler runs eleven passes with the clock at 0, 1, ...,
  10 seconds. The passes at 0 to 9 seconds do nothing but sleep. The pass at 10 seconds
  publishes the TTN record, once, and resets \<^verbatim>\<open>last_ttn\<close>. No pass, neither the one at
  5 seconds nor the one at 10, holds an effect of the local chain: the log of the
  container is never requested and nothing is published outside the \<^verbatim>\<open>ttn\<close> topics;
  \<^verbatim>\<open>last_local\<close> is still 0 at the end. The claim's two runs of the local chain do not
  happen.
\<close>

theorem publish_stats_loop_eleven_ticks:
  "publish_stats_loop default_config sample_lib accept_all
     (map tick_at [0, 1, 2, 3, 4, 5, 6, 7, 8, 9, 10]) =
   ([[Sleep 1], [Sleep 1], [Sleep 1], [Sleep 1], [Sleep 1],
     [Sleep 1], [Sleep 1], [Sleep 1], [Sleep 1], [Sleep 1],
     [MqttPublish ''gateways/ttn/uplink_count'' (PInt 0) True,
      MqttPublish ''gateways/ttn/downlink_count'' (PInt 0) True,
      MqttPublish ''gateways/ttn/last_uplink_received_at'' (PStr []) True,
      MqttPublish ''gateways/ttn/last_downlink_received_at'' (PStr []) True,
      MqttPublish ''gateways/ttn/connected'' (PStr ''0'') True,
      MqttPublish ''gateways/ttn/last_update'' (PStr ''2025-12-07T10:40:12'') True,
      Console (PrintTTNConnected 0 0 False),
      Sleep 1]],
    \<lparr>last_local = 0, last_ttn = 10\<rparr>)"
  by (simp add: publish_stats_loop_def ttn_interval_def initial_sched_def idle_pass firing_pass)

end
